theory Spec2Isabelle
  imports Complex_Main
begin

section \<open>The analytics engine of the admin dashboard\<close>

text \<open>
  The development embeds the \<^verbatim>\<open>analytics\<close> computation of the admin dashboard
  (the body of the \<^verbatim>\<open>useMemo\<close> callback in AdminDashboard) as HOL functions.

  Idealisations of the JavaScript runtime, fixed here once:
  \<^item> a JavaScript number is either \<open>NaN\<close> or an exact rational: the rounding error
    of IEEE doubles and the two infinities are left out;
  \<^item> a \<^verbatim>\<open>Date\<close> is its time value, milliseconds since the epoch, or no value for
    an Invalid Date; a booking stores in \<open>createdAt\<close> the time value that
    \<^verbatim>\<open>new Date(b.createdAt)\<close> yields;
  \<^item> the local time zone and the month names of the locale are parameters of the
    model (the record \<open>runtime\<close>);
  \<^item> an optional string field is \<open>None\<close> when it is \<^verbatim>\<open>undefined\<close> or \<^verbatim>\<open>null\<close>;
  \<^item> keys of the two grouping objects are assumed not to be names that an object
    inherits from \<^verbatim>\<open>Object.prototype\<close> (such as \<^verbatim>\<open>constructor\<close>).
\<close>

subsection \<open>JavaScript values\<close>

datatype number = Finite rat | NaN

datatype jsvalue = Undefined | Null | Number number

text \<open>\<^verbatim>\<open>Number(v)\<close>: \<^verbatim>\<open>undefined\<close> becomes NaN, \<^verbatim>\<open>null\<close> becomes 0.\<close>

fun ToNumber :: "jsvalue \<Rightarrow> number" where
  "ToNumber Undefined = NaN"
| "ToNumber Null = Finite 0"
| "ToNumber (Number n) = n"

text \<open>\<^verbatim>\<open>n || 0\<close> on a number: NaN and 0 are falsy, so the result is always finite.\<close>

fun orZero :: "number \<Rightarrow> rat" where
  "orZero NaN = 0"
| "orZero (Finite r) = r"

fun num_mul :: "number \<Rightarrow> number \<Rightarrow> number" where
  "num_mul (Finite a) (Finite b) = Finite (a * b)"
| "num_mul _ _ = NaN"

fun num_sub :: "number \<Rightarrow> number \<Rightarrow> number" where
  "num_sub (Finite a) (Finite b) = Finite (a - b)"
| "num_sub _ _ = NaN"


text \<open>
  \<^verbatim>\<open>Math.round\<close> rounds to the nearest integer, a tie going towards plus infinity:
  it is \<open>\<lfloor>x + 1/2\<rfloor>\<close>.
\<close>

fun Math_round :: "number \<Rightarrow> number" where
  "Math_round (Finite r) = Finite (of_int \<lfloor>r + 1 / 2\<rfloor>)"
| "Math_round NaN = NaN"

text \<open>Truthiness of an optional string: \<^verbatim>\<open>undefined\<close>, \<^verbatim>\<open>null\<close> and \<^verbatim>\<open>""\<close> are falsy.\<close>

fun truthy :: "string option \<Rightarrow> bool" where
  "truthy None = False"
| "truthy (Some s) = (s \<noteq> [])"

subsection \<open>Dates\<close>

text \<open>A time value: milliseconds since 1970-01-01T00:00:00Z, \<open>None\<close> for an Invalid Date.\<close>

type_synonym timevalue = "int option"

definition msPerDay :: int where
  "msPerDay = 86400000"

text \<open>
  The proleptic Gregorian calendar of the runtime: the civil date of the day number
  \<open>z\<close> (days since the epoch), as (year, month from 0, day of month).
\<close>

definition civil :: "int \<Rightarrow> int \<times> int \<times> int" where
  "civil z0 =
    (let z = z0 + 719468;
         era = z div 146097;
         doe = z - era * 146097;
         yoe = (doe - doe div 1460 + doe div 36524 - doe div 146096) div 365;
         doy = doe - (365 * yoe + yoe div 4 - yoe div 100);
         mp = (5 * doy + 2) div 153;
         d = doy - (153 * mp + 2) div 5 + 1;
         m = (if mp < 10 then mp + 3 else mp - 9);
         y = yoe + era * 400 + (if m \<le> 2 then 1 else 0)
     in (y, m - 1, d))"

text \<open>
  What the model takes from the runtime: \<open>LocalTZA t\<close> is the offset in milliseconds
  of local time from UTC at the time value \<open>t\<close>, and \<open>monthShort m\<close> is the short
  name that the \<^verbatim>\<open>en-GB\<close> locale gives to month \<open>m\<close> (counted from 0).
\<close>

record runtime =
  LocalTZA :: "int \<Rightarrow> int"
  monthShort :: "int \<Rightarrow> string"

definition localDay :: "runtime \<Rightarrow> int \<Rightarrow> int" where
  "localDay rt t = (t + LocalTZA rt t) div msPerDay"

definition getFullYear :: "runtime \<Rightarrow> timevalue \<Rightarrow> int option" where
  "getFullYear rt d = map_option (\<lambda>t. fst (civil (localDay rt t))) d"

definition getMonth :: "runtime \<Rightarrow> timevalue \<Rightarrow> int option" where
  "getMonth rt d = map_option (\<lambda>t. fst (snd (civil (localDay rt t)))) d"

definition getDate :: "runtime \<Rightarrow> timevalue \<Rightarrow> int option" where
  "getDate rt d = map_option (\<lambda>t. snd (snd (civil (localDay rt t)))) d"

text \<open>
  \<^verbatim>\<open>toLocaleDateString('en-GB', { day: 'numeric', month: 'short' })\<close>: the day of the
  month without padding, a space and the short month name; an Invalid Date gives
  the text \<^verbatim>\<open>Invalid Date\<close>.
\<close>

definition digitChar :: "int \<Rightarrow> char" where
  "digitChar d = char_of (48 + d)"

definition showDay :: "int \<Rightarrow> string" where
  "showDay d = (if d < 10 then [digitChar d] else [digitChar (d div 10), digitChar (d mod 10)])"

definition toLocaleDateString :: "runtime \<Rightarrow> timevalue \<Rightarrow> string" where
  "toLocaleDateString rt d =
    (case d of
       None \<Rightarrow> ''Invalid Date''
     | Some t \<Rightarrow>
         (case civil (localDay rt t) of
            (y, m, dd) \<Rightarrow> showDay dd @ '' '' @ monthShort rt m))"

text \<open>
  \<^verbatim>\<open>a === b\<close> on the results of the getters: NaN (here \<open>None\<close>) is equal to nothing,
  not even to itself.
\<close>

fun strictEq :: "int option \<Rightarrow> int option \<Rightarrow> bool" where
  "strictEq (Some a) (Some b) = (a = b)"
| "strictEq _ _ = False"

text \<open>\<^verbatim>\<open>a >= b\<close> on two dates compares their time values; it is false when one is NaN.\<close>

fun dateGe :: "timevalue \<Rightarrow> timevalue \<Rightarrow> bool" where
  "dateGe (Some a) (Some b) = (b \<le> a)"
| "dateGe _ _ = False"

text \<open>\<^verbatim>\<open>new Date(tv)\<close> clips a time value beyond 8.64e15 ms to an Invalid Date.\<close>

definition newDate :: "int \<Rightarrow> timevalue" where
  "newDate tv = (if \<bar>tv\<bar> \<le> 8640000000000000 then Some tv else None)"

subsection \<open>The data model\<close>

record booking =
  createdAt :: timevalue
  status :: string
  numericPrice :: jsvalue
  driverId :: "string option"
  driverName :: "string option"
  tourTitle :: "string option"

text \<open>Of a driver the aggregator reads the status only.\<close>

record driver =
  driver_status :: string

record settings =
  commissionRate :: jsvalue

text \<open>The selector \<^verbatim>\<open>'TODAY' | 'WEEK' | 'MONTH' | 'ALL'\<close>.\<close>

datatype timeRange = TODAY | WEEK | MONTH | ALL_range

subsection \<open>Filtering by time range\<close>

text \<open>The callback of \<^verbatim>\<open>bookings.filter\<close>; \<open>now\<close> is the time value of \<^verbatim>\<open>new Date()\<close>.\<close>

definition inRange :: "runtime \<Rightarrow> int \<Rightarrow> timeRange \<Rightarrow> booking \<Rightarrow> bool" where
  "inRange rt now timeRange b =
    (let bookingDate = createdAt b in
     if timeRange = ALL_range then True
     else if timeRange = TODAY then
       strictEq (getDate rt bookingDate) (getDate rt (Some now)) \<and>
       strictEq (getMonth rt bookingDate) (getMonth rt (Some now)) \<and>
       strictEq (getFullYear rt bookingDate) (getFullYear rt (Some now))
     else if timeRange = WEEK then
       (let weekAgo = newDate (now - 7 * 24 * 60 * 60 * 1000) in dateGe bookingDate weekAgo)
     else if timeRange = MONTH then
       (let monthAgo = newDate (now - 30 * 24 * 60 * 60 * 1000) in dateGe bookingDate monthAgo)
     else True)"

definition filteredBookings :: "runtime \<Rightarrow> int \<Rightarrow> timeRange \<Rightarrow> booking list \<Rightarrow> booking list" where
  "filteredBookings rt now timeRange bookings = filter (inRange rt now timeRange) bookings"

subsection \<open>Status partition and financial figures\<close>

definition isConfirmed :: "booking \<Rightarrow> bool" where
  "isConfirmed b = (status b = ''CONFIRMED'' \<or> status b = ''COMPLETED'')"

definition isPending :: "booking \<Rightarrow> bool" where
  "isPending b = (status b = ''PENDING'')"

definition isCancelled :: "booking \<Rightarrow> bool" where
  "isCancelled b = (status b = ''CANCELLED'')"

text \<open>\<^verbatim>\<open>Number(b.numericPrice) || 0\<close>\<close>

definition priceOrZero :: "booking \<Rightarrow> rat" where
  "priceOrZero b = orZero (ToNumber (numericPrice b))"

text \<open>\<^verbatim>\<open>confirmed.reduce((sum, b) => sum + (Number(b.numericPrice) || 0), 0)\<close>\<close>

definition grossOf :: "booking list \<Rightarrow> rat" where
  "grossOf confirmed = fold (\<lambda>b sum. sum + priceOrZero b) confirmed 0"

text \<open>
  \<^verbatim>\<open>settings?.commissionRate !== undefined ? settings.commissionRate : 0.13\<close>;
  \<open>None\<close> is a settings object that is \<^verbatim>\<open>null\<close> or \<^verbatim>\<open>undefined\<close>.
\<close>

definition commissionOf :: "settings option \<Rightarrow> jsvalue" where
  "commissionOf st =
    (let chained = (case st of None \<Rightarrow> Undefined | Some s \<Rightarrow> commissionRate s)
     in if chained \<noteq> Undefined then chained else Number (Finite (13 / 100)))"

subsection \<open>Objects used as dictionaries\<close>

text \<open>
  An object with string keys is the list of its own properties in the order of their
  creation. Enumeration (\<^verbatim>\<open>Object.values\<close>, \<^verbatim>\<open>Object.entries\<close>) lists first the keys
  that are array indices (canonical decimal numerals below \<open>2^32 - 1\<close>) in ascending
  numeric order, then every other key in the order of creation.
\<close>

type_synonym 'v object = "(string \<times> 'v) list"

definition getProp :: "'v object \<Rightarrow> string \<Rightarrow> 'v option" where
  "getProp obj k = map_of obj k"

text \<open>\<^verbatim>\<open>obj[k] = v\<close>: an existing property keeps its place, a new one goes last.\<close>

fun setProp :: "string \<Rightarrow> 'v \<Rightarrow> 'v object \<Rightarrow> 'v object" where
  "setProp k v [] = [(k, v)]"
| "setProp k v (p # ps) = (if fst p = k then (k, v) # ps else p # setProp k v ps)"

text \<open>A mutation of the value stored under \<open>k\<close>, as in \<^verbatim>\<open>obj[k].trips += 1\<close>.\<close>

definition modifyProp :: "string \<Rightarrow> ('v \<Rightarrow> 'v) \<Rightarrow> 'v object \<Rightarrow> 'v object" where
  "modifyProp k f obj = map (\<lambda>p. if fst p = k then (fst p, f (snd p)) else p) obj"

definition isDigit :: "char \<Rightarrow> bool" where
  "isDigit c = (48 \<le> (of_char c :: int) \<and> (of_char c :: int) \<le> 57)"

definition digitsValue :: "string \<Rightarrow> int" where
  "digitsValue s = fold (\<lambda>c n. 10 * n + (of_char c - 48)) s 0"

definition isArrayIndex :: "string \<Rightarrow> bool" where
  "isArrayIndex s =
    (case s of
       [] \<Rightarrow> False
     | c # cs \<Rightarrow> list_all isDigit s \<and> (c \<noteq> CHR ''0'' \<or> cs = []) \<and> digitsValue s < 4294967295)"

definition ownEntries :: "'v object \<Rightarrow> (string \<times> 'v) list" where
  "ownEntries obj =
     sort_key (\<lambda>p. digitsValue (fst p)) (filter (\<lambda>p. isArrayIndex (fst p)) obj)
     @ filter (\<lambda>p. \<not> isArrayIndex (fst p)) obj"

definition Object_values :: "'v object \<Rightarrow> 'v list" where
  "Object_values obj = map snd (ownEntries obj)"

definition Object_entries :: "'v object \<Rightarrow> (string \<times> 'v) list" where
  "Object_entries obj = ownEntries obj"

subsection \<open>Top drivers\<close>

record driverStats =
  name :: string
  trips :: nat
  revenue :: rat

text \<open>
  The body of \<^verbatim>\<open>confirmed.forEach\<close>, under its guard
  \<^verbatim>\<open>b.driverId && b.driverName\<close>. After the initialisation the key is present, so
  the two updates always find their entry.
\<close>

definition tallyDriver :: "booking \<Rightarrow> driverStats object \<Rightarrow> driverStats object" where
  "tallyDriver b driverPerformance =
    (if truthy (driverId b) \<and> truthy (driverName b) then
       (case (driverId b, driverName b) of
          (Some did, Some dname) \<Rightarrow>
            (let dp1 = (if getProp driverPerformance did = None
                        then setProp did \<lparr>name = dname, trips = 0, revenue = 0\<rparr> driverPerformance
                        else driverPerformance);
                 dp2 = modifyProp did (\<lambda>e. e\<lparr>trips := trips e + 1\<rparr>) dp1;
                 dp3 = modifyProp did (\<lambda>e. e\<lparr>revenue := revenue e + priceOrZero b\<rparr>) dp2
             in dp3)
        | _ \<Rightarrow> driverPerformance)
     else driverPerformance)"

text \<open>
  \<^verbatim>\<open>sort((a, b) => b.revenue - a.revenue)\<close>: the sort of the language is stable, and
  the comparator is a consistent descending order, so the result is the stable sort
  on the negated key.
\<close>

definition topDriversOf :: "booking list \<Rightarrow> driverStats list" where
  "topDriversOf confirmed =
    (let driverPerformance = fold tallyDriver confirmed []
     in take 5 (sort_key (\<lambda>d. - revenue d) (Object_values driverPerformance)))"

subsection \<open>Top routes\<close>

record routeCount =
  route_name :: string
  route_count :: nat

text \<open>
  The body of \<^verbatim>\<open>filteredBookings.forEach\<close>:
  \<^verbatim>\<open>routePopularity[title] = (routePopularity[title] || 0) + 1\<close>.
\<close>

definition tallyRoute :: "booking \<Rightarrow> nat object \<Rightarrow> nat object" where
  "tallyRoute b routePopularity =
    (let title = (case tourTitle b of
                    None \<Rightarrow> ''Custom''
                  | Some t \<Rightarrow> if t \<noteq> [] then t else ''Custom'')
     in setProp title ((case getProp routePopularity title of None \<Rightarrow> 0 | Some c \<Rightarrow> c) + 1)
          routePopularity)"

definition topRoutesOf :: "booking list \<Rightarrow> routeCount list" where
  "topRoutesOf filtered =
    (let routePopularity = fold tallyRoute filtered []
     in take 5 (sort_key (\<lambda>r. - int (route_count r))
          (map (\<lambda>(n, c). \<lparr>route_name = n, route_count = c\<rparr>) (Object_entries routePopularity))))"

subsection \<open>Trend series\<close>

record trendEntry =
  date :: string
  amount :: jsvalue

text \<open>The callback of \<^verbatim>\<open>map\<close>: the formatted creation date and the price as stored.\<close>

definition trendPoint :: "runtime \<Rightarrow> booking \<Rightarrow> trendEntry" where
  "trendPoint rt b = \<lparr>date = toLocaleDateString rt (createdAt b), amount = numericPrice b\<rparr>"

text \<open>\<^verbatim>\<open>confirmed.slice(0, 10).map(...).reverse()\<close>\<close>

definition trendDataOf :: "runtime \<Rightarrow> booking list \<Rightarrow> trendEntry list" where
  "trendDataOf rt confirmed = rev (map (trendPoint rt) (take 10 confirmed))"

subsection \<open>The aggregator\<close>

record summary =
  totalBookings :: nat
  confirmedCount :: nat
  pendingCount :: nat
  cancelledCount :: nat
  totalGross :: rat
  totalCommission :: number
  netRevenue :: number
  aov :: number
  topDrivers :: "driverStats list"
  topRoutes :: "routeCount list"
  trendData :: "trendEntry list"
  activeDrivers :: nat
  pendingDrivers :: nat

definition analytics ::
  "runtime \<Rightarrow> int \<Rightarrow> booking list \<Rightarrow> driver list \<Rightarrow> settings option \<Rightarrow> timeRange \<Rightarrow> summary" where
  "analytics rt now bookings drivers st timeRange =
    (let filtered = filteredBookings rt now timeRange bookings;
         confirmed = filter isConfirmed filtered;
         pending = filter isPending filtered;
         cancelled = filter isCancelled filtered;
         gross = grossOf confirmed;
         commission = commissionOf st;
         commissionTotal = Math_round (num_mul (Finite gross) (ToNumber commission));
         net = num_sub (Finite gross) commissionTotal;
         average = (if length confirmed > 0
                    then Math_round (Finite (gross / of_nat (length confirmed)))
                    else Finite 0)
     in \<lparr>totalBookings = length filtered,
         confirmedCount = length confirmed,
         pendingCount = length pending,
         cancelledCount = length cancelled,
         totalGross = gross,
         totalCommission = commissionTotal,
         netRevenue = net,
         aov = average,
         topDrivers = topDriversOf confirmed,
         topRoutes = topRoutesOf filtered,
         trendData = trendDataOf rt confirmed,
         activeDrivers = length (filter (\<lambda>d. driver_status d = ''ACTIVE'') drivers),
         pendingDrivers = length (filter (\<lambda>d. driver_status d = ''PENDING'') drivers)\<rparr>)"

subsection \<open>Reference definitions and example data\<close>

text \<open>
  The time-range selector in the words of the specification: TODAY is the same
  calendar day (year, month and day of month), WEEK the preceding 7 x 24 hours, MONTH
  the preceding 30 x 24 hours, ALL everything. An hour is 3600000 milliseconds.
\<close>

definition selectorKeeps :: "runtime \<Rightarrow> int \<Rightarrow> timeRange \<Rightarrow> booking \<Rightarrow> bool" where
  "selectorKeeps rt now timeRange b =
    (case timeRange of
       ALL_range \<Rightarrow> True
     | TODAY \<Rightarrow>
         (case createdAt b of
            None \<Rightarrow> False
          | Some t \<Rightarrow> civil (localDay rt t) = civil (localDay rt now))
     | WEEK \<Rightarrow>
         (case createdAt b of None \<Rightarrow> False | Some t \<Rightarrow> now - 7 * 24 * 3600000 \<le> t)
     | MONTH \<Rightarrow>
         (case createdAt b of None \<Rightarrow> False | Some t \<Rightarrow> now - 30 * 24 * 3600000 \<le> t))"

text \<open>A runtime for the examples: UTC+4 all year, English month names.\<close>

definition tbilisi :: runtime where
  "tbilisi = \<lparr>LocalTZA = (\<lambda>t. 14400000),
     monthShort = (\<lambda>m. if 0 \<le> m \<and> m < 12
        then [''Jan'', ''Feb'', ''Mar'', ''Apr'', ''May'', ''Jun'',
              ''Jul'', ''Aug'', ''Sep'', ''Oct'', ''Nov'', ''Dec''] ! nat m
        else [])\<rparr>"

definition mkBooking ::
  "timevalue \<Rightarrow> string \<Rightarrow> jsvalue \<Rightarrow> string option \<Rightarrow> string option \<Rightarrow> string option \<Rightarrow> booking" where
  "mkBooking t s p did dname title = \<lparr>createdAt = t, status = s, numericPrice = p,
     driverId = did, driverName = dname, tourTitle = title\<rparr>"

text \<open>A booking created at \<open>t\<close> with nothing else of interest.\<close>

definition bookingAt :: "timevalue \<Rightarrow> booking" where
  "bookingAt t = mkBooking t ''PENDING'' Null None None None"


text \<open>A status outside the four enumerated values.\<close>

definition otherStatus :: "booking \<Rightarrow> bool" where
  "otherStatus b = (status b \<notin> {''CONFIRMED'', ''COMPLETED'', ''PENDING'', ''CANCELLED''})"

text \<open>The first example of the specification: created today, rate 0.13.\<close>

definition exampleBookings :: "booking list" where
  "exampleBookings =
    [mkBooking (Some 1705320000000) ''CONFIRMED'' (Number (Finite 100)) (Some ''d1'') (Some ''Dato'') None,
     mkBooking (Some 1705320000000) ''PENDING'' (Number (Finite 50)) None None None]"


text \<open>A price that is missing (\<^verbatim>\<open>undefined\<close>, \<^verbatim>\<open>null\<close>) or invalid (NaN).\<close>

definition missingPrice :: "jsvalue \<Rightarrow> bool" where
  "missingPrice v = (v = Undefined \<or> v = Null \<or> v = Number NaN)"

text \<open>Three confirmed bookings, newest first: 15, 14 and 13 January 2024, noon UTC.\<close>

definition trendBookings :: "booking list" where
  "trendBookings =
    [mkBooking (Some 1705320000000) ''CONFIRMED'' (Number (Finite 100)) None None None,
     mkBooking (Some 1705233600000) ''CONFIRMED'' Undefined None None None,
     mkBooking (Some 1705147200000) ''COMPLETED'' (Number (Finite 30)) None None None]"

text \<open>The same three bookings, oldest first.\<close>

definition ascendingBookings :: "booking list" where
  "ascendingBookings = rev trendBookings"

definition twelveBookings :: "booking list" where
  "twelveBookings = trendBookings @ trendBookings @ trendBookings @ trendBookings"

subsection \<open>Reference definitions for the two rankings\<close>















definition leaderBookings :: "booking list" where
  "leaderBookings =
    [mkBooking (Some 1705320000000) ''CONFIRMED'' (Number (Finite 100))
       (Some ''d1'') (Some ''Alika'') (Some ''Kazbegi''),
     mkBooking (Some 1705320000000) ''COMPLETED'' (Number (Finite 150))
       (Some ''d2'') (Some ''Beka'') None,
     mkBooking (Some 1705320000000) ''CONFIRMED'' (Number (Finite 20))
       (Some ''d1'') (Some ''Alika'') (Some ''Batumi''),
     mkBooking (Some 1705320000000) ''PENDING'' (Number (Finite 500))
       (Some ''d4'') (Some ''Dato'') (Some ''Batumi''),
     mkBooking (Some 1705320000000) ''CONFIRMED'' (Number (Finite 150))
       (Some ''d3'') (Some ''Cira'') (Some '''')]"


subsection \<open>The aggregator over a store of arrays\<close>

text \<open>
  To express that a call mutates none of its inputs, the arrays are placed in a store:
  for each element type the list of the arrays allocated so far, a reference being a
  position in that list. Of the array operations of the aggregator, \<^verbatim>\<open>filter\<close>,
  \<^verbatim>\<open>slice\<close>, \<^verbatim>\<open>map\<close>, \<^verbatim>\<open>Object.values\<close> and \<^verbatim>\<open>Object.entries\<close> return a new array,
  while \<^verbatim>\<open>sort\<close> and \<^verbatim>\<open>reverse\<close> work in place on the array they are called on;
  \<^verbatim>\<open>reduce\<close>, \<^verbatim>\<open>forEach\<close> and \<^verbatim>\<open>length\<close> only read. The two grouping objects are
  local to the call. The aggregator assigns to no property of a booking, of a driver or
  of the settings, which are therefore plain values here.
\<close>

type_synonym 'a arrays = "'a list list"

definition newArray :: "'a list \<Rightarrow> 'a arrays \<Rightarrow> nat \<times> 'a arrays" where
  "newArray xs h = (length h, h @ [xs])"

definition sortInPlace :: "('a \<Rightarrow> 'k::linorder) \<Rightarrow> nat \<Rightarrow> 'a arrays \<Rightarrow> 'a arrays" where
  "sortInPlace key r h = h[r := sort_key key (h ! r)]"

definition reverseInPlace :: "nat \<Rightarrow> 'a arrays \<Rightarrow> 'a arrays" where
  "reverseInPlace r h = h[r := rev (h ! r)]"

record store =
  bookingArrays :: "booking arrays"
  driverArrays :: "driver arrays"
  statsArrays :: "driverStats arrays"
  entryArrays :: "(string \<times> nat) arrays"
  routeArrays :: "routeCount arrays"
  trendArrays :: "trendEntry arrays"

text \<open>The returned object: the figures, and references to its three arrays.\<close>

record summaryRefs =
  totalBookingsR :: nat
  confirmedCountR :: nat
  pendingCountR :: nat
  cancelledCountR :: nat
  totalGrossR :: rat
  totalCommissionR :: number
  netRevenueR :: number
  aovR :: number
  topDriversR :: nat
  topRoutesR :: nat
  trendDataR :: nat
  activeDriversR :: nat
  pendingDriversR :: nat

text \<open>
  The body of the aggregator, statement by statement; \<open>bookings\<close> and \<open>drivers\<close> are
  the references of the two input arrays.
\<close>

definition analyticsRun ::
  "runtime \<Rightarrow> int \<Rightarrow> nat \<Rightarrow> nat \<Rightarrow> settings option \<Rightarrow> timeRange \<Rightarrow> store
     \<Rightarrow> summaryRefs \<times> store" where
  "analyticsRun rt now bookings drivers st timeRange s =
    (let (filtered, b1) =
           newArray (filter (inRange rt now timeRange) (bookingArrays s ! bookings)) (bookingArrays s);
         (confirmed, b2) = newArray (filter isConfirmed (b1 ! filtered)) b1;
         (pending, b3) = newArray (filter isPending (b2 ! filtered)) b2;
         (cancelled, b4) = newArray (filter isCancelled (b3 ! filtered)) b3;
         gross = grossOf (b4 ! confirmed);
         commission = commissionOf st;
         commissionTotal = Math_round (num_mul (Finite gross) (ToNumber commission));
         net = num_sub (Finite gross) commissionTotal;
         average = (if length (b4 ! confirmed) > 0
                    then Math_round (Finite (gross / of_nat (length (b4 ! confirmed))))
                    else Finite 0);
         driverPerformance = fold tallyDriver (b4 ! confirmed) [];
         (vals, s1) = newArray (Object_values driverPerformance) (statsArrays s);
         s2 = sortInPlace (\<lambda>d. - revenue d) vals s1;
         (topD, s3) = newArray (take 5 (s2 ! vals)) s2;
         routePopularity = fold tallyRoute (b4 ! filtered) [];
         (entries, e1) = newArray (Object_entries routePopularity) (entryArrays s);
         (mapped, r1) =
           newArray (map (\<lambda>(n, c). \<lparr>route_name = n, route_count = c\<rparr>) (e1 ! entries))
             (routeArrays s);
         r2 = sortInPlace (\<lambda>r. - int (route_count r)) mapped r1;
         (topR, r3) = newArray (take 5 (r2 ! mapped)) r2;
         (sliced, b5) = newArray (take 10 (b4 ! confirmed)) b4;
         (points, t1) = newArray (map (trendPoint rt) (b5 ! sliced)) (trendArrays s);
         t2 = reverseInPlace points t1;
         (active, d1) =
           newArray (filter (\<lambda>d. driver_status d = ''ACTIVE'') (driverArrays s ! drivers))
             (driverArrays s);
         (waiting, d2) =
           newArray (filter (\<lambda>d. driver_status d = ''PENDING'') (d1 ! drivers)) d1
     in (\<lparr>totalBookingsR = length (b5 ! filtered),
          confirmedCountR = length (b5 ! confirmed),
          pendingCountR = length (b5 ! pending),
          cancelledCountR = length (b5 ! cancelled),
          totalGrossR = gross,
          totalCommissionR = commissionTotal,
          netRevenueR = net,
          aovR = average,
          topDriversR = topD,
          topRoutesR = topR,
          trendDataR = points,
          activeDriversR = length (d2 ! active),
          pendingDriversR = length (d2 ! waiting)\<rparr>,
         \<lparr>bookingArrays = b5, driverArrays = d2, statsArrays = s3, entryArrays = e1,
          routeArrays = r3, trendArrays = t2\<rparr>))"

text \<open>The returned object with its three arrays read from the store.\<close>

definition readBack :: "store \<Rightarrow> summaryRefs \<Rightarrow> summary" where
  "readBack s r =
    \<lparr>totalBookings = totalBookingsR r,
     confirmedCount = confirmedCountR r,
     pendingCount = pendingCountR r,
     cancelledCount = cancelledCountR r,
     totalGross = totalGrossR r,
     totalCommission = totalCommissionR r,
     netRevenue = netRevenueR r,
     aov = aovR r,
     topDrivers = statsArrays s ! topDriversR r,
     topRoutes = routeArrays s ! topRoutesR r,
     trendData = trendArrays s ! trendDataR r,
     activeDrivers = activeDriversR r,
     pendingDrivers = pendingDriversR r\<rparr>"

text \<open>Every array of the store \<open>s\<close> is still there, unchanged, in the store \<open>s'\<close>.\<close>

definition preserved :: "store \<Rightarrow> store \<Rightarrow> bool" where
  "preserved s s' =
    (take (length (bookingArrays s)) (bookingArrays s') = bookingArrays s
     \<and> take (length (driverArrays s)) (driverArrays s') = driverArrays s
     \<and> take (length (statsArrays s)) (statsArrays s') = statsArrays s
     \<and> take (length (entryArrays s)) (entryArrays s') = entryArrays s
     \<and> take (length (routeArrays s)) (routeArrays s') = routeArrays s
     \<and> take (length (trendArrays s)) (trendArrays s') = trendArrays s)"

definition exampleStore :: store where
  "exampleStore =
    \<lparr>bookingArrays = [leaderBookings],
     driverArrays = [[\<lparr>driver_status = ''ACTIVE''\<rparr>, \<lparr>driver_status = ''PENDING''\<rparr>]],
     statsArrays = [], entryArrays = [], routeArrays = [], trendArrays = []\<rparr>"

section \<open>Time-range filter\<close>

lemma inRange_selectorKeeps:
  assumes "0 \<le> now" "now \<le> 8640000000000000"
  shows "inRange rt now timeRange b = selectorKeeps rt now timeRange b"
proof (cases timeRange)
  case TODAY
  then show ?thesis
    by (cases "createdAt b")
       (auto simp: inRange_def selectorKeeps_def getDate_def getMonth_def getFullYear_def
          prod_eq_iff)
next
  case WEEK
  with assms show ?thesis
    by (cases "createdAt b") (auto simp: inRange_def selectorKeeps_def newDate_def abs_le_iff)
next
  case MONTH
  with assms show ?thesis
    by (cases "createdAt b") (auto simp: inRange_def selectorKeeps_def newDate_def abs_le_iff)
next
  case ALL_range
  then show ?thesis by (simp add: inRange_def selectorKeeps_def)
qed

text \<open>
  Claim C1. Whenever the clock gives a time value \<open>now\<close> at or after the epoch, the
  filtered list is the input list restricted to the bookings that the selector keeps,
  in the input order: TODAY keeps a booking whose creation date is valid and has the
  year, month and day of month of \<open>now\<close> in local time, WEEK one created at or after
  \<open>now\<close> minus 7 x 24 hours, MONTH one created at or after \<open>now\<close> minus 30 x 24 hours,
  ALL every booking. So the filtered set is a subset of the input, under ALL it is the
  input, and \<open>totalBookings\<close> counts exactly the kept bookings.
\<close>

theorem filtered_by_selector:
  assumes "0 \<le> now" "now \<le> 8640000000000000"
  shows "filteredBookings rt now timeRange bookings
           = filter (selectorKeeps rt now timeRange) bookings
     \<and> set (filteredBookings rt now timeRange bookings)
          = {b \<in> set bookings. selectorKeeps rt now timeRange b}
     \<and> set (filteredBookings rt now timeRange bookings) \<subseteq> set bookings
     \<and> filteredBookings rt now ALL_range bookings = bookings
     \<and> totalBookings (analytics rt now bookings drivers st timeRange)
          = length (filter (selectorKeeps rt now timeRange) bookings)"
proof -
  have eq: "inRange rt now tr = selectorKeeps rt now tr" for tr
    using inRange_selectorKeeps [OF assms] by (rule ext)
  have f: "filteredBookings rt now timeRange bookings
      = filter (selectorKeeps rt now timeRange) bookings"
    by (simp add: filteredBookings_def eq)
  have s: "set (filteredBookings rt now timeRange bookings)
      = {b \<in> set bookings. selectorKeeps rt now timeRange b}"
    unfolding f by simp
  have sub: "set (filteredBookings rt now timeRange bookings) \<subseteq> set bookings"
    unfolding f by simp
  have all: "filteredBookings rt now ALL_range bookings = bookings"
    by (simp add: filteredBookings_def inRange_def)
  have tot: "totalBookings (analytics rt now bookings drivers st timeRange)
      = length (filter (selectorKeeps rt now timeRange) bookings)"
    by (simp add: analytics_def Let_def f)
  from f s sub all tot show ?thesis by blast
qed

text \<open>
  At noon UTC of 15 January 2024 in UTC+4, the local day runs from 20:00 UTC of the
  14th to 20:00 UTC of the 15th: of five bookings around its two ends, and one with an
  invalid date, TODAY keeps the two inside.
\<close>

theorem filtered_by_selector_witness:
  "(0::int) \<le> 1705320000000 \<and> (1705320000000::int) \<le> 8640000000000000
   \<and> filteredBookings tbilisi 1705320000000 TODAY
        [bookingAt (Some 1705348800000), bookingAt (Some 1705348799999),
         bookingAt (Some 1705262400000), bookingAt (Some 1705262399999),
         bookingAt None]
      = [bookingAt (Some 1705348799999), bookingAt (Some 1705262400000)]"
proof -
  have h1: "(0::int) \<le> 1705320000000" and h2: "(1705320000000::int) \<le> 8640000000000000"
    by simp_all
  have e: "filter (selectorKeeps tbilisi 1705320000000 TODAY)
        [bookingAt (Some 1705348800000), bookingAt (Some 1705348799999),
         bookingAt (Some 1705262400000), bookingAt (Some 1705262399999),
         bookingAt None]
      = [bookingAt (Some 1705348799999), bookingAt (Some 1705262400000)]"
    by code_simp
  from filtered_by_selector [OF h1 h2, of tbilisi TODAY _ "[]" None]
  have "filteredBookings tbilisi 1705320000000 TODAY
        [bookingAt (Some 1705348800000), bookingAt (Some 1705348799999),
         bookingAt (Some 1705262400000), bookingAt (Some 1705262399999),
         bookingAt None]
      = filter (selectorKeeps tbilisi 1705320000000 TODAY)
        [bookingAt (Some 1705348800000), bookingAt (Some 1705348799999),
         bookingAt (Some 1705262400000), bookingAt (Some 1705262399999),
         bookingAt None]"
    by blast
  with e h1 h2 show ?thesis by (simp only: simp_thms)
qed

lemma filteredBookings_ALL: "filteredBookings rt now ALL_range bookings = bookings"
  by (simp add: filteredBookings_def inRange_def)

section \<open>Financial figures\<close>


lemma fold_add_sum: "fold (\<lambda>b sum. sum + f b) xs (a::rat) = a + sum_list (map f xs)"
  by (induction xs arbitrary: a) (simp_all add: add.assoc)




section \<open>Status partition\<close>

lemma partition_lengths:
  "length (filter isConfirmed xs) + length (filter isPending xs)
     + length (filter isCancelled xs) + length (filter otherStatus xs) = length xs"
  by (induction xs) (auto simp: isConfirmed_def isPending_def isCancelled_def otherStatus_def)

text \<open>
  Claim C3. Within the filtered set, \<open>confirmedCount\<close> counts the bookings with status
  CONFIRMED or COMPLETED, \<open>pendingCount\<close> those with PENDING, \<open>cancelledCount\<close> those
  with CANCELLED; a booking with any other status is counted in \<open>totalBookings\<close> only.
  Hence the three counts sum to at most \<open>totalBookings\<close>, with equality exactly when
  every filtered booking has one of the four statuses.
\<close>

theorem status_partition:
  "confirmedCount (analytics rt now bookings drivers st timeRange)
       = length (filter (\<lambda>b. status b = ''CONFIRMED'' \<or> status b = ''COMPLETED'')
           (filteredBookings rt now timeRange bookings))
   \<and> pendingCount (analytics rt now bookings drivers st timeRange)
       = length (filter (\<lambda>b. status b = ''PENDING'') (filteredBookings rt now timeRange bookings))
   \<and> cancelledCount (analytics rt now bookings drivers st timeRange)
       = length (filter (\<lambda>b. status b = ''CANCELLED'') (filteredBookings rt now timeRange bookings))
   \<and> totalBookings (analytics rt now bookings drivers st timeRange)
       = confirmedCount (analytics rt now bookings drivers st timeRange)
         + pendingCount (analytics rt now bookings drivers st timeRange)
         + cancelledCount (analytics rt now bookings drivers st timeRange)
         + length (filter otherStatus (filteredBookings rt now timeRange bookings))
   \<and> confirmedCount (analytics rt now bookings drivers st timeRange)
         + pendingCount (analytics rt now bookings drivers st timeRange)
         + cancelledCount (analytics rt now bookings drivers st timeRange)
       \<le> totalBookings (analytics rt now bookings drivers st timeRange)
   \<and> (confirmedCount (analytics rt now bookings drivers st timeRange)
         + pendingCount (analytics rt now bookings drivers st timeRange)
         + cancelledCount (analytics rt now bookings drivers st timeRange)
       = totalBookings (analytics rt now bookings drivers st timeRange)
      \<longleftrightarrow> (\<forall>b \<in> set (filteredBookings rt now timeRange bookings).
             status b \<in> {''CONFIRMED'', ''COMPLETED'', ''PENDING'', ''CANCELLED''}))"
proof -
  let ?f = "filteredBookings rt now timeRange bookings"
  let ?S = "analytics rt now bookings drivers st timeRange"
  have c: "confirmedCount ?S = length (filter isConfirmed ?f)"
    and p: "pendingCount ?S = length (filter isPending ?f)"
    and x: "cancelledCount ?S = length (filter isCancelled ?f)"
    and t: "totalBookings ?S = length ?f"
    by (simp_all add: analytics_def Let_def)
  have o: "(length (filter otherStatus ?f) = 0)
      = (\<forall>b \<in> set ?f. status b \<in> {''CONFIRMED'', ''COMPLETED'', ''PENDING'', ''CANCELLED''})"
    by (simp add: filter_empty_conv otherStatus_def)
  have c': "isConfirmed = (\<lambda>b. status b = ''CONFIRMED'' \<or> status b = ''COMPLETED'')"
    and p': "isPending = (\<lambda>b. status b = ''PENDING'')"
    and x': "isCancelled = (\<lambda>b. status b = ''CANCELLED'')"
    by (simp_all add: fun_eq_iff isConfirmed_def isPending_def isCancelled_def)
  note pl = partition_lengths [of ?f]
  have 1: "confirmedCount ?S
      = length (filter (\<lambda>b. status b = ''CONFIRMED'' \<or> status b = ''COMPLETED'') ?f)"
    using c c' by simp
  have 2: "pendingCount ?S = length (filter (\<lambda>b. status b = ''PENDING'') ?f)"
    using p p' by simp
  have 3: "cancelledCount ?S = length (filter (\<lambda>b. status b = ''CANCELLED'') ?f)"
    using x x' by simp
  have 4: "totalBookings ?S = confirmedCount ?S + pendingCount ?S + cancelledCount ?S
      + length (filter otherStatus ?f)"
    using pl c p x t by simp
  have 5: "confirmedCount ?S + pendingCount ?S + cancelledCount ?S \<le> totalBookings ?S"
    using 4 by simp
  have 6: "(confirmedCount ?S + pendingCount ?S + cancelledCount ?S = totalBookings ?S)
      \<longleftrightarrow> (\<forall>b \<in> set ?f. status b \<in> {''CONFIRMED'', ''COMPLETED'', ''PENDING'', ''CANCELLED''})"
    using 4 o by auto
  from 1 2 3 4 5 6 show ?thesis by blast
qed

text \<open>
  Three bookings, one of them with the status DRAFT: the total is 3, the three counts
  are 1, 1 and 0, and the equality fails.
\<close>

theorem status_partition_witness:
  "totalBookings (analytics tbilisi 1705320000000
       (exampleBookings @ [mkBooking None ''DRAFT'' Null None None None]) [] None ALL_range) = 3
   \<and> confirmedCount (analytics tbilisi 1705320000000
       (exampleBookings @ [mkBooking None ''DRAFT'' Null None None None]) [] None ALL_range) = 1
   \<and> pendingCount (analytics tbilisi 1705320000000
       (exampleBookings @ [mkBooking None ''DRAFT'' Null None None None]) [] None ALL_range) = 1
   \<and> cancelledCount (analytics tbilisi 1705320000000
       (exampleBookings @ [mkBooking None ''DRAFT'' Null None None None]) [] None ALL_range) = 0
   \<and> \<not> (\<forall>b \<in> set (filteredBookings tbilisi 1705320000000 ALL_range
             (exampleBookings @ [mkBooking None ''DRAFT'' Null None None None])).
          status b \<in> {''CONFIRMED'', ''COMPLETED'', ''PENDING'', ''CANCELLED''})"
  using status_partition [of tbilisi 1705320000000
      "exampleBookings @ [mkBooking None ''DRAFT'' Null None None None]" "[]" None ALL_range]
  by (simp add: filteredBookings_ALL exampleBookings_def mkBooking_def otherStatus_def)

section \<open>Average order value\<close>




section \<open>Trend series\<close>

lemma trendData_analytics:
  "trendData (analytics rt now bookings drivers st timeRange)
     = rev (map (trendPoint rt)
         (take 10 (filter isConfirmed (filteredBookings rt now timeRange bookings))))"
  by (simp add: analytics_def Let_def trendDataOf_def)

lemma confirmedCount_analytics:
  "confirmedCount (analytics rt now bookings drivers st timeRange)
     = length (filter isConfirmed (filteredBookings rt now timeRange bookings))"
  by (simp add: analytics_def Let_def)

lemma rev_map_take_nth:
  assumes "i < min n (length xs)"
  shows "rev (map f (take n xs)) ! i = f (xs ! (min n (length xs) - 1 - i))"
proof -
  have "rev (map f (take n xs)) ! i = map f (take n xs) ! (length (map f (take n xs)) - Suc i)"
    using assms by (intro rev_nth) simp
  also have "\<dots> = map f (take n xs) ! (min n (length xs) - 1 - i)"
    by (simp add: min.commute)
  also have "\<dots> = f (take n xs ! (min n (length xs) - 1 - i))"
    using assms by (intro nth_map) auto
  also have "take n xs ! (min n (length xs) - 1 - i) = xs ! (min n (length xs) - 1 - i)"
    using assms by (intro nth_take) auto
  finally show ?thesis .
qed

text \<open>
  Claim C6, amended. The trend series is the first 10 confirmed bookings in their
  existing order, each mapped to its formatted creation date and its price, and then
  reversed: entry \<open>i\<close> of the series comes from the booking taken at position
  \<open>n - 1 - i\<close>, where \<open>n\<close> is the length of the series, so the booking taken last
  comes first and the booking taken first comes last. When the bookings taken are in
  newest-first order, the series is in ascending order of creation and the earliest
  created of them comes first. The length is the minimum of 10 and \<open>confirmedCount\<close>,
  and the series is empty when nothing is confirmed.
\<close>

theorem trend_series:
  "trendData (analytics rt now bookings drivers st timeRange)
     = rev (map (trendPoint rt)
         (take 10 (filter isConfirmed (filteredBookings rt now timeRange bookings))))
   \<and> length (trendData (analytics rt now bookings drivers st timeRange))
       = min 10 (confirmedCount (analytics rt now bookings drivers st timeRange))
   \<and> (confirmedCount (analytics rt now bookings drivers st timeRange) = 0
        \<longrightarrow> trendData (analytics rt now bookings drivers st timeRange) = [])
   \<and> (\<forall>i < length (trendData (analytics rt now bookings drivers st timeRange)).
        trendData (analytics rt now bookings drivers st timeRange) ! i
          = trendPoint rt (filter isConfirmed (filteredBookings rt now timeRange bookings)
              ! (length (trendData (analytics rt now bookings drivers st timeRange)) - 1 - i)))
   \<and> (sorted_wrt (\<lambda>a b. dateGe (createdAt a) (createdAt b))
          (take 10 (filter isConfirmed (filteredBookings rt now timeRange bookings)))
        \<longrightarrow> (\<forall>i j. i < j \<and> j < length (trendData (analytics rt now bookings drivers st timeRange))
              \<longrightarrow> dateGe
                    (createdAt (filter isConfirmed (filteredBookings rt now timeRange bookings)
                       ! (length (trendData (analytics rt now bookings drivers st timeRange)) - 1 - j)))
                    (createdAt (filter isConfirmed (filteredBookings rt now timeRange bookings)
                       ! (length (trendData (analytics rt now bookings drivers st timeRange)) - 1 - i)))))"
proof -
  let ?C = "filter isConfirmed (filteredBookings rt now timeRange bookings)"
  let ?T = "trendData (analytics rt now bookings drivers st timeRange)"
  let ?n = "confirmedCount (analytics rt now bookings drivers st timeRange)"
  have T: "?T = rev (map (trendPoint rt) (take 10 ?C))"
    by (rule trendData_analytics)
  have n: "?n = length ?C"
    by (rule confirmedCount_analytics)
  have len: "length ?T = min 10 ?n"
    by (simp add: T n min.commute)
  have len': "length ?T = min 10 (length ?C)"
    using len n by simp
  have empty: "?n = 0 \<longrightarrow> ?T = []"
    using len by auto
  have nth: "\<forall>i < length ?T. ?T ! i = trendPoint rt (?C ! (length ?T - 1 - i))"
  proof (intro allI impI)
    fix i assume "i < length ?T"
    then have "i < min 10 (length ?C)" using len' by simp
    from rev_map_take_nth [OF this, of "trendPoint rt"]
    show "?T ! i = trendPoint rt (?C ! (length ?T - 1 - i))"
      unfolding len' T [symmetric] using T by simp
  qed
  have chrono: "sorted_wrt (\<lambda>a b. dateGe (createdAt a) (createdAt b)) (take 10 ?C)
      \<longrightarrow> (\<forall>i j. i < j \<and> j < length ?T
            \<longrightarrow> dateGe (createdAt (?C ! (length ?T - 1 - j))) (createdAt (?C ! (length ?T - 1 - i))))"
  proof (intro impI allI)
    fix i j
    assume s: "sorted_wrt (\<lambda>a b. dateGe (createdAt a) (createdAt b)) (take 10 ?C)"
      and ij: "i < j \<and> j < length ?T"
    let ?a = "length ?T - 1 - j" and ?b = "length ?T - 1 - i"
    have ab: "?a < ?b" "?b < length (take 10 ?C)"
      using ij len' by auto
    from s ab have "dateGe (createdAt (take 10 ?C ! ?a)) (createdAt (take 10 ?C ! ?b))"
      by (simp add: sorted_wrt_iff_nth_less)
    moreover have "take 10 ?C ! ?a = ?C ! ?a" "take 10 ?C ! ?b = ?C ! ?b"
      using ab by auto
    ultimately show "dateGe (createdAt (?C ! ?a)) (createdAt (?C ! ?b))"
      by simp
  qed
  from T len empty nth chrono show ?thesis by blast
qed

text \<open>
  Three confirmed bookings, newest first, the second without a price: the series runs
  from 13 January to 15 January. Of twelve confirmed bookings ten are kept.
\<close>

theorem trend_series_witness:
  "trendData (analytics tbilisi 1705320000000 trendBookings [] None ALL_range)
     = [\<lparr>date = ''13 Jan'', amount = Number (Finite 30)\<rparr>,
        \<lparr>date = ''14 Jan'', amount = Undefined\<rparr>,
        \<lparr>date = ''15 Jan'', amount = Number (Finite 100)\<rparr>]
   \<and> sorted_wrt (\<lambda>a b. dateGe (createdAt a) (createdAt b))
        (take 10 (filter isConfirmed (filteredBookings tbilisi 1705320000000 ALL_range trendBookings)))
   \<and> confirmedCount (analytics tbilisi 1705320000000 [] [] None ALL_range) = 0
   \<and> trendData (analytics tbilisi 1705320000000 [] [] None ALL_range) = []
   \<and> confirmedCount (analytics tbilisi 1705320000000 twelveBookings [] None ALL_range) = 12
   \<and> length (trendData (analytics tbilisi 1705320000000 twelveBookings [] None ALL_range)) = 10"
proof -
  have c: "filter isConfirmed trendBookings = trendBookings"
    by code_simp
  have p: "rev (map (trendPoint tbilisi) (take 10 trendBookings))
     = [\<lparr>date = ''13 Jan'', amount = Number (Finite 30)\<rparr>,
        \<lparr>date = ''14 Jan'', amount = Undefined\<rparr>,
        \<lparr>date = ''15 Jan'', amount = Number (Finite 100)\<rparr>]"
    by code_simp
  have s: "sorted_wrt (\<lambda>a b. dateGe (createdAt a) (createdAt b)) (take 10 trendBookings)"
    by code_simp
  have c0: "confirmedCount (analytics tbilisi 1705320000000 [] [] None ALL_range) = 0"
    by code_simp
  have c12: "confirmedCount (analytics tbilisi 1705320000000 twelveBookings [] None ALL_range) = 12"
    by code_simp
  from trend_series [of tbilisi 1705320000000 trendBookings "[]" None ALL_range,
      unfolded filteredBookings_ALL c]
  have t3: "trendData (analytics tbilisi 1705320000000 trendBookings [] None ALL_range)
      = rev (map (trendPoint tbilisi) (take 10 trendBookings))"
    by blast
  from trend_series [of tbilisi 1705320000000 "[]" "[]" None ALL_range] c0
  have t0: "trendData (analytics tbilisi 1705320000000 [] [] None ALL_range) = []"
    by blast
  from trend_series [of tbilisi 1705320000000 twelveBookings "[]" None ALL_range]
  have "length (trendData (analytics tbilisi 1705320000000 twelveBookings [] None ALL_range))
      = min 10 (confirmedCount (analytics tbilisi 1705320000000 twelveBookings [] None ALL_range))"
    by blast
  with c12
  have l12: "length (trendData (analytics tbilisi 1705320000000 twelveBookings [] None ALL_range))
      = 10"
    by simp
  from t3 p s c0 t0 c12 l12 show ?thesis
    by (simp add: filteredBookings_ALL c)
qed


text \<open>
  Claim C6 as stated fails on which entry comes first. For three confirmed bookings in
  oldest-first order, the first entry of the series is the booking taken last, which
  is also the one created last: neither the booking taken first nor the earliest.
\<close>

theorem trend_series_counterexample:
  "trendData (analytics tbilisi 1705320000000 ascendingBookings [] None ALL_range)
     = [\<lparr>date = ''15 Jan'', amount = Number (Finite 100)\<rparr>,
        \<lparr>date = ''14 Jan'', amount = Undefined\<rparr>,
        \<lparr>date = ''13 Jan'', amount = Number (Finite 30)\<rparr>]
   \<and> take 10 (filter isConfirmed
         (filteredBookings tbilisi 1705320000000 ALL_range ascendingBookings))
       = [mkBooking (Some 1705147200000) ''COMPLETED'' (Number (Finite 30)) None None None,
          mkBooking (Some 1705233600000) ''CONFIRMED'' Undefined None None None,
          mkBooking (Some 1705320000000) ''CONFIRMED'' (Number (Finite 100)) None None None]
   \<and> trendPoint tbilisi
         (mkBooking (Some 1705147200000) ''COMPLETED'' (Number (Finite 30)) None None None)
       = \<lparr>date = ''13 Jan'', amount = Number (Finite 30)\<rparr>
   \<and> trendData (analytics tbilisi 1705320000000 ascendingBookings [] None ALL_range) ! 0
       \<noteq> trendPoint tbilisi
           (mkBooking (Some 1705147200000) ''COMPLETED'' (Number (Finite 30)) None None None)"
  by code_simp

lemma priceOrZero_missing: "missingPrice (numericPrice b) \<Longrightarrow> priceOrZero b = 0"
  by (auto simp: missingPrice_def priceOrZero_def)

lemma sum_list_drop_zero:
  "(\<And>x. x \<in> set xs \<Longrightarrow> \<not> P x \<Longrightarrow> f x = (0::rat))
    \<Longrightarrow> sum_list (map f (filter P xs)) = sum_list (map f xs)"
  by (induction xs) auto

text \<open>
  Claim C10. The amount of a trend entry is the price of its booking as stored, without
  the coercion to zero: a confirmed booking among the first 10 whose price is missing
  or invalid has a trend entry carrying that very value, which is not the number 0,
  while its contribution to \<open>totalGross\<close> is zero, so that the gross is the same as
  without all such bookings.
\<close>

theorem trend_amount_raw:
  "(\<forall>i < length (trendData (analytics rt now bookings drivers st timeRange)).
      amount (trendData (analytics rt now bookings drivers st timeRange) ! i)
        = numericPrice (filter isConfirmed (filteredBookings rt now timeRange bookings)
            ! (length (trendData (analytics rt now bookings drivers st timeRange)) - 1 - i)))
   \<and> (\<forall>b \<in> set (take 10 (filter isConfirmed (filteredBookings rt now timeRange bookings))).
        missingPrice (numericPrice b) \<longrightarrow>
          trendPoint rt b \<in> set (trendData (analytics rt now bookings drivers st timeRange))
          \<and> amount (trendPoint rt b) = numericPrice b
          \<and> amount (trendPoint rt b) \<noteq> Number (Finite 0)
          \<and> priceOrZero b = 0)
   \<and> totalGross (analytics rt now bookings drivers st timeRange)
       = grossOf (filter (\<lambda>b. \<not> missingPrice (numericPrice b))
           (filter isConfirmed (filteredBookings rt now timeRange bookings)))"
proof -
  let ?C = "filter isConfirmed (filteredBookings rt now timeRange bookings)"
  let ?T = "trendData (analytics rt now bookings drivers st timeRange)"
  have T: "?T = rev (map (trendPoint rt) (take 10 ?C))"
    by (rule trendData_analytics)
  have len': "length ?T = min 10 (length ?C)"
    by (simp add: T min.commute)
  have nth: "\<forall>i < length ?T. amount (?T ! i) = numericPrice (?C ! (length ?T - 1 - i))"
  proof (intro allI impI)
    fix i assume "i < length ?T"
    then have "i < min 10 (length ?C)" using len' by simp
    from rev_map_take_nth [OF this, of "trendPoint rt"]
    have "?T ! i = trendPoint rt (?C ! (length ?T - 1 - i))"
      unfolding len' T [symmetric] using T by simp
    then show "amount (?T ! i) = numericPrice (?C ! (length ?T - 1 - i))"
      by (simp add: trendPoint_def)
  qed
  have mem: "\<forall>b \<in> set (take 10 ?C). missingPrice (numericPrice b) \<longrightarrow>
      trendPoint rt b \<in> set ?T \<and> amount (trendPoint rt b) = numericPrice b
      \<and> amount (trendPoint rt b) \<noteq> Number (Finite 0) \<and> priceOrZero b = 0"
  proof (intro ballI impI)
    fix b assume b: "b \<in> set (take 10 ?C)" and m: "missingPrice (numericPrice b)"
    have 1: "trendPoint rt b \<in> set ?T" using b by (simp add: T)
    have 2: "amount (trendPoint rt b) = numericPrice b" by (simp add: trendPoint_def)
    have 3: "amount (trendPoint rt b) \<noteq> Number (Finite 0)"
      using m by (auto simp: trendPoint_def missingPrice_def)
    from 1 2 3 priceOrZero_missing [OF m]
    show "trendPoint rt b \<in> set ?T \<and> amount (trendPoint rt b) = numericPrice b
      \<and> amount (trendPoint rt b) \<noteq> Number (Finite 0) \<and> priceOrZero b = 0"
      by simp
  qed
  have g: "totalGross (analytics rt now bookings drivers st timeRange)
      = grossOf (filter (\<lambda>b. \<not> missingPrice (numericPrice b)) ?C)"
  proof -
    have "totalGross (analytics rt now bookings drivers st timeRange) = grossOf ?C"
      by (simp add: analytics_def Let_def)
    also have "\<dots> = sum_list (map priceOrZero ?C)"
      by (simp add: grossOf_def fold_add_sum)
    also have "\<dots> = sum_list (map priceOrZero (filter (\<lambda>b. \<not> missingPrice (numericPrice b)) ?C))"
      by (rule sum_list_drop_zero [symmetric]) (simp add: priceOrZero_missing)
    also have "\<dots> = grossOf (filter (\<lambda>b. \<not> missingPrice (numericPrice b)) ?C)"
      by (simp add: grossOf_def fold_add_sum)
    finally show ?thesis .
  qed
  from nth mem g show ?thesis by blast
qed


text \<open>
  In the example of three bookings the middle entry carries \<^verbatim>\<open>undefined\<close>, and the
  gross is 130.
\<close>

theorem trend_amount_raw_witness:
  "mkBooking (Some 1705233600000) ''CONFIRMED'' Undefined None None None
     \<in> set (take 10 (filter isConfirmed
         (filteredBookings tbilisi 1705320000000 ALL_range trendBookings)))
   \<and> missingPrice (numericPrice (mkBooking (Some 1705233600000) ''CONFIRMED'' Undefined None None None))
   \<and> 1 < length (trendData (analytics tbilisi 1705320000000 trendBookings [] None ALL_range))
   \<and> amount (trendData (analytics tbilisi 1705320000000 trendBookings [] None ALL_range) ! 1)
       = Undefined
   \<and> \<lparr>date = ''14 Jan'', amount = Undefined\<rparr>
       \<in> set (trendData (analytics tbilisi 1705320000000 trendBookings [] None ALL_range))
   \<and> totalGross (analytics tbilisi 1705320000000 trendBookings [] None ALL_range) = 130"
proof -
  have c: "filter isConfirmed trendBookings = trendBookings"
    by code_simp
  have m: "mkBooking (Some 1705233600000) ''CONFIRMED'' Undefined None None None
      \<in> set (take 10 trendBookings)"
    by code_simp
  have mp: "missingPrice (numericPrice
      (mkBooking (Some 1705233600000) ''CONFIRMED'' Undefined None None None))"
    by code_simp
  have l: "length (trendData (analytics tbilisi 1705320000000 trendBookings [] None ALL_range)) = 3"
    by code_simp
  have n: "trendBookings ! 1 = mkBooking (Some 1705233600000) ''CONFIRMED'' Undefined None None None"
    by code_simp
  have tp: "trendPoint tbilisi (mkBooking (Some 1705233600000) ''CONFIRMED'' Undefined None None None)
      = \<lparr>date = ''14 Jan'', amount = Undefined\<rparr>"
    by code_simp
  have g: "grossOf (filter (\<lambda>b. \<not> missingPrice (numericPrice b)) trendBookings) = 130"
    by code_simp
  have u: "numericPrice (mkBooking (Some 1705233600000) ''CONFIRMED'' Undefined None None None)
      = Undefined"
    by (simp add: mkBooking_def)
  note T = trend_amount_raw [of tbilisi 1705320000000 trendBookings "[]" None ALL_range,
      unfolded filteredBookings_ALL c]
  from T have nth: "\<forall>i < length (trendData (analytics tbilisi 1705320000000 trendBookings [] None ALL_range)).
      amount (trendData (analytics tbilisi 1705320000000 trendBookings [] None ALL_range) ! i)
        = numericPrice (trendBookings
            ! (length (trendData (analytics tbilisi 1705320000000 trendBookings [] None ALL_range))
                 - 1 - i))"
    by blast
  have "1 < length (trendData (analytics tbilisi 1705320000000 trendBookings [] None ALL_range))"
    using l by simp
  with nth
  have "amount (trendData (analytics tbilisi 1705320000000 trendBookings [] None ALL_range) ! 1)
      = numericPrice (trendBookings
          ! (length (trendData (analytics tbilisi 1705320000000 trendBookings [] None ALL_range))
               - 1 - 1))"
    by blast
  then have a: "amount (trendData (analytics tbilisi 1705320000000 trendBookings [] None ALL_range) ! 1)
      = Undefined"
    using n u by (simp add: l)
  from T m mp have e: "\<lparr>date = ''14 Jan'', amount = Undefined\<rparr>
      \<in> set (trendData (analytics tbilisi 1705320000000 trendBookings [] None ALL_range))"
    using tp by auto
  from T have t: "totalGross (analytics tbilisi 1705320000000 trendBookings [] None ALL_range) = 130"
    using g by simp
  from m mp l a e t show ?thesis
    by (simp add: filteredBookings_ALL c)
qed

section \<open>Grouping with an object\<close>








subsection \<open>The route counter\<close>




subsection \<open>The driver tally\<close>













section \<open>The two rankings\<close>












section \<open>Degenerate inputs\<close>








section \<open>Purity\<close>

lemma analyticsRun_result:
  assumes "bookings < length (bookingArrays s)" "drivers < length (driverArrays s)"
  shows "readBack (snd (analyticsRun rt now bookings drivers st timeRange s))
           (fst (analyticsRun rt now bookings drivers st timeRange s))
     = analytics rt now (bookingArrays s ! bookings) (driverArrays s ! drivers) st timeRange"
  using assms
  by (simp add: analyticsRun_def readBack_def analytics_def newArray_def sortInPlace_def
        reverseInPlace_def Let_def nth_append filteredBookings_def topDriversOf_def
        topRoutesOf_def trendDataOf_def)

lemma analyticsRun_preserved:
  "preserved s (snd (analyticsRun rt now bookings drivers st timeRange s))"
  by (simp add: analyticsRun_def preserved_def newArray_def sortInPlace_def
        reverseInPlace_def Let_def)

lemma preserved_nth:
  assumes "preserved s s'"
  shows "r < length (bookingArrays s) \<Longrightarrow> bookingArrays s' ! r = bookingArrays s ! r"
    and "r < length (driverArrays s) \<Longrightarrow> driverArrays s' ! r = driverArrays s ! r"
    and "length (bookingArrays s) \<le> length (bookingArrays s')"
    and "length (driverArrays s) \<le> length (driverArrays s')"
proof -
  from assms have b: "take (length (bookingArrays s)) (bookingArrays s') = bookingArrays s"
    and d: "take (length (driverArrays s)) (driverArrays s') = driverArrays s"
    by (simp_all add: preserved_def)
  show "r < length (bookingArrays s) \<Longrightarrow> bookingArrays s' ! r = bookingArrays s ! r"
    using b by (metis nth_take)
  show "r < length (driverArrays s) \<Longrightarrow> driverArrays s' ! r = driverArrays s ! r"
    using d by (metis nth_take)
  show "length (bookingArrays s) \<le> length (bookingArrays s')"
    using b by (metis length_take min.cobounded1)
  show "length (driverArrays s) \<le> length (driverArrays s')"
    using d by (metis length_take min.cobounded1)
qed

text \<open>
  Claim C9. The aggregator is a function of its inputs (the two collections, the
  settings, the time range and the current time): the result of a run is the summary
  that \<open>analytics\<close> computes from the contents of the two input arrays. A run changes
  no array that existed before it, so neither the booking collection nor the driver
  collection is mutated (the settings are never assigned to), and a second run on the
  store left by the first returns the same summary.
\<close>

theorem pure_and_idempotent:
  assumes "bookings < length (bookingArrays s)" "drivers < length (driverArrays s)"
  shows "(let run1 = analyticsRun rt now bookings drivers st timeRange s;
              run2 = analyticsRun rt now bookings drivers st timeRange (snd run1)
          in readBack (snd run1) (fst run1)
               = analytics rt now (bookingArrays s ! bookings) (driverArrays s ! drivers) st timeRange
             \<and> preserved s (snd run1)
             \<and> bookingArrays (snd run1) ! bookings = bookingArrays s ! bookings
             \<and> driverArrays (snd run1) ! drivers = driverArrays s ! drivers
             \<and> readBack (snd run2) (fst run2) = readBack (snd run1) (fst run1)
             \<and> bookingArrays (snd run2) ! bookings = bookingArrays s ! bookings
             \<and> driverArrays (snd run2) ! drivers = driverArrays s ! drivers)"
proof -
  let ?run1 = "analyticsRun rt now bookings drivers st timeRange s"
  let ?run2 = "analyticsRun rt now bookings drivers st timeRange (snd ?run1)"
  have p1: "preserved s (snd ?run1)"
    by (rule analyticsRun_preserved)
  have b1: "bookingArrays (snd ?run1) ! bookings = bookingArrays s ! bookings"
    and d1: "driverArrays (snd ?run1) ! drivers = driverArrays s ! drivers"
    and lb: "bookings < length (bookingArrays (snd ?run1))"
    and ld: "drivers < length (driverArrays (snd ?run1))"
    using preserved_nth [OF p1] assms by auto
  have r1: "readBack (snd ?run1) (fst ?run1)
      = analytics rt now (bookingArrays s ! bookings) (driverArrays s ! drivers) st timeRange"
    using assms by (rule analyticsRun_result)
  have p2: "preserved (snd ?run1) (snd ?run2)"
    by (rule analyticsRun_preserved)
  have b2: "bookingArrays (snd ?run2) ! bookings = bookingArrays s ! bookings"
    and d2: "driverArrays (snd ?run2) ! drivers = driverArrays s ! drivers"
    using preserved_nth [OF p2] lb ld b1 d1 by auto
  have "readBack (snd ?run2) (fst ?run2)
      = analytics rt now (bookingArrays (snd ?run1) ! bookings)
          (driverArrays (snd ?run1) ! drivers) st timeRange"
    using lb ld by (rule analyticsRun_result)
  then have r2: "readBack (snd ?run2) (fst ?run2) = readBack (snd ?run1) (fst ?run1)"
    by (simp add: b1 d1 r1)
  from r1 p1 b1 d1 r2 b2 d2 show ?thesis
    unfolding Let_def by blast
qed
text \<open>
  A store holding the five example bookings and two drivers: the run returns the
  summary of these collections, with the leaderboard seen before, and the booking
  array is as it was.
\<close>

theorem pure_and_idempotent_witness:
  "0 < length (bookingArrays exampleStore) \<and> 0 < length (driverArrays exampleStore)
   \<and> readBack (snd (analyticsRun tbilisi 1705320000000 0 0 None ALL_range exampleStore))
        (fst (analyticsRun tbilisi 1705320000000 0 0 None ALL_range exampleStore))
       = analytics tbilisi 1705320000000 leaderBookings
           [\<lparr>driver_status = ''ACTIVE''\<rparr>, \<lparr>driver_status = ''PENDING''\<rparr>] None ALL_range
   \<and> bookingArrays (snd (analyticsRun tbilisi 1705320000000 0 0 None ALL_range exampleStore)) ! 0
       = leaderBookings
   \<and> topDrivers (readBack (snd (analyticsRun tbilisi 1705320000000 0 0 None ALL_range exampleStore))
        (fst (analyticsRun tbilisi 1705320000000 0 0 None ALL_range exampleStore)))
       = [\<lparr>name = ''Beka'', trips = 1, revenue = 150\<rparr>,
          \<lparr>name = ''Cira'', trips = 1, revenue = 150\<rparr>,
          \<lparr>name = ''Alika'', trips = 2, revenue = 120\<rparr>]"
proof -
  have h1: "0 < length (bookingArrays exampleStore)"
    and h2: "0 < length (driverArrays exampleStore)"
    by (simp_all add: exampleStore_def)
  have b: "bookingArrays exampleStore ! 0 = leaderBookings"
    and d: "driverArrays exampleStore ! 0
      = [\<lparr>driver_status = ''ACTIVE''\<rparr>, \<lparr>driver_status = ''PENDING''\<rparr>]"
    by (simp_all add: exampleStore_def)
  have t: "topDrivers (analytics tbilisi 1705320000000 leaderBookings
      [\<lparr>driver_status = ''ACTIVE''\<rparr>, \<lparr>driver_status = ''PENDING''\<rparr>] None ALL_range)
      = [\<lparr>name = ''Beka'', trips = 1, revenue = 150\<rparr>,
         \<lparr>name = ''Cira'', trips = 1, revenue = 150\<rparr>,
         \<lparr>name = ''Alika'', trips = 2, revenue = 120\<rparr>]"
    by code_simp
  note P = pure_and_idempotent [OF h1 h2, of tbilisi 1705320000000 None ALL_range,
      unfolded Let_def b d]
  from P have r: "readBack (snd (analyticsRun tbilisi 1705320000000 0 0 None ALL_range exampleStore))
        (fst (analyticsRun tbilisi 1705320000000 0 0 None ALL_range exampleStore))
       = analytics tbilisi 1705320000000 leaderBookings
           [\<lparr>driver_status = ''ACTIVE''\<rparr>, \<lparr>driver_status = ''PENDING''\<rparr>] None ALL_range"
    by blast
  from P have k: "bookingArrays (snd (analyticsRun tbilisi 1705320000000 0 0 None ALL_range exampleStore)) ! 0
       = leaderBookings"
    by blast
  from h1 h2 r k t show ?thesis
    by simp
qed

end
